theory Spec2Isabelle
  imports Complex_Main
begin

section \<open>The smart positioning engine of \<^verbatim>\<open>src/hooks/useSmartPosition.ts\<close>\<close>

text \<open>
  The engine places a tooltip next to a target rectangle: a chain of strategies picks a
  side and a raw position, a pipeline of handlers moves the position into the allowed
  area, and the arrow offset is computed from the final position.

  Numbers. A TypeScript \<^verbatim>\<open>number\<close> is modelled as a \<^typ>\<open>real\<close>: the definitions
  write down the arithmetic of the code (sums, halves, comparisons, \<^verbatim>\<open>Math.max\<close>,
  \<^verbatim>\<open>Math.min\<close>) without the rounding, the infinities and the NaN of IEEE doubles. For
  the viewport-boundary handler, where a rounding error decides a bound, the rounding is
  written out as well (see the subsection on double-precision arithmetic).

  Names. Record fields are constants, so a field keeps the name it has in the source
  (\<open>x\<close>, \<open>y\<close>, \<open>gap\<close>, ...) and the theorems below use other names for their variables.
  The field \<^verbatim>\<open>top\<close> is written \<open>top'\<close>, since \<open>top\<close> is the greatest element of an order
  in HOL.
\<close>

subsection \<open>Types (\<^verbatim>\<open>types\<close>, and the interfaces of the hook file)\<close>

text \<open>\<^verbatim>\<open>type TooltipPosition = "top" | "bottom" | "left" | "right"\<close>\<close>

datatype TooltipPosition = Top | Bottom | Left | Right

text \<open>
  The viewport is the object type \<^verbatim>\<open>{ width: number; height: number }\<close>. The interface
  \<^verbatim>\<open>BoundingRect\<close> has these two fields and the four edges; TypeScript's interfaces are
  structural, so it is declared as the extension of the former, and \<open>width\<close> and
  \<open>height\<close> read both.
\<close>

record Viewport =
  width :: real
  height :: real

record BoundingRect = Viewport +
  top' :: real
  left :: real
  bottom :: real
  right :: real

text \<open>\<^verbatim>\<open>interface PositionInput\<close>, the argument of every strategy and handler.\<close>

record PositionInput =
  targetRect :: BoundingRect
  tooltipWidth :: real
  tooltipHeight :: real
  gap :: real
  viewport :: Viewport

text \<open>
  \<^verbatim>\<open>interface PositionOutput\<close> is \<^verbatim>\<open>{position, x, y}\<close>, and \<^verbatim>\<open>interface SmartPositionResult\<close>
  is \<^verbatim>\<open>{position, x, y, arrowOffset}\<close>: the same three fields and one more.
\<close>

record PositionOutput =
  position :: TooltipPosition
  x :: real
  y :: real

record SmartPositionResult = PositionOutput +
  arrowOffset :: real

text \<open>
  \<^verbatim>\<open>type PositionStrategy = (input: PositionInput) => PositionOutput | null\<close> and
  \<^verbatim>\<open>type PositionHandler = (result: PositionOutput, context: PositionInput) => PositionOutput\<close>.
\<close>

type_synonym PositionStrategy = "PositionInput \<Rightarrow> PositionOutput option"

type_synonym PositionHandler = "PositionOutput \<Rightarrow> PositionInput \<Rightarrow> PositionOutput"

text \<open>
  \<^verbatim>\<open>interface SmartPositionOptions { strategies?: ...; handlers?: ... }\<close>: an optional
  field that is absent (\<^verbatim>\<open>undefined\<close>) is \<open>None\<close>.
\<close>

record SmartPositionOptions =
  strategies :: "PositionStrategy list option"
  handlers :: "PositionHandler list option"

text \<open>
  The ambient state the engine reads: the global \<^verbatim>\<open>window\<close>. The repository reads its
  \<^verbatim>\<open>innerWidth\<close>, \<^verbatim>\<open>innerHeight\<close> and \<^verbatim>\<open>scrollY\<close>; whatever else the browser keeps
  there is the extension part of the record.
\<close>

record window =
  innerWidth :: real
  innerHeight :: real
  scrollY :: real

subsection \<open>Constants\<close>

definition DEFAULT_GAP :: real where
  "DEFAULT_GAP = 8"

definition VIEWPORT_PADDING :: real where
  "VIEWPORT_PADDING = 8"

definition ARROW_PADDING :: real where
  "ARROW_PADDING = 20"

subsection \<open>Strategies\<close>

definition bottomFirstStrategy :: PositionStrategy where
  "bottomFirstStrategy input =
     (let spaceBelow = height (viewport input) - bottom (targetRect input)
      in if spaceBelow \<ge> tooltipHeight input + gap input
         then Some \<lparr>position = Bottom,
                    x = left (targetRect input) + width (targetRect input) / 2
                        - tooltipWidth input / 2,
                    y = bottom (targetRect input) + gap input\<rparr>
         else None)"

definition topFirstStrategy :: PositionStrategy where
  "topFirstStrategy input =
     (let spaceAbove = top' (targetRect input)
      in if spaceAbove \<ge> tooltipHeight input + gap input
         then Some \<lparr>position = Top,
                    x = left (targetRect input) + width (targetRect input) / 2
                        - tooltipWidth input / 2,
                    y = top' (targetRect input) - tooltipHeight input - gap input\<rparr>
         else None)"

definition rightFirstStrategy :: PositionStrategy where
  "rightFirstStrategy input =
     (let spaceRight = width (viewport input) - right (targetRect input)
      in if spaceRight \<ge> tooltipWidth input + gap input
         then Some \<lparr>position = Right,
                    x = right (targetRect input) + gap input,
                    y = top' (targetRect input) + height (targetRect input) / 2
                        - tooltipHeight input / 2\<rparr>
         else None)"

definition leftFirstStrategy :: PositionStrategy where
  "leftFirstStrategy input =
     (let spaceLeft = left (targetRect input)
      in if spaceLeft \<ge> tooltipWidth input + gap input
         then Some \<lparr>position = Left,
                    x = left (targetRect input) - tooltipWidth input - gap input,
                    y = top' (targetRect input) + height (targetRect input) / 2
                        - tooltipHeight input / 2\<rparr>
         else None)"

definition followMouseStrategy :: "real \<Rightarrow> real \<Rightarrow> PositionStrategy" where
  "followMouseStrategy mouseX mouseY input =
     Some \<lparr>position = Bottom, x = mouseX + gap input, y = mouseY + gap input\<rparr>"

definition fixedPositionStrategy :: "real \<Rightarrow> real \<Rightarrow> TooltipPosition \<Rightarrow> PositionStrategy" where
  "fixedPositionStrategy fixedX fixedY fixedPosition input =
     Some \<lparr>position = fixedPosition, x = fixedX, y = fixedY\<rparr>"

definition defaultStrategies :: "PositionStrategy list" where
  "defaultStrategies =
     [bottomFirstStrategy, topFirstStrategy, rightFirstStrategy, leftFirstStrategy]"

definition topPreferredStrategies :: "PositionStrategy list" where
  "topPreferredStrategies =
     [topFirstStrategy, bottomFirstStrategy, leftFirstStrategy, rightFirstStrategy]"

definition horizontalStrategies :: "PositionStrategy list" where
  "horizontalStrategies =
     [rightFirstStrategy, leftFirstStrategy, bottomFirstStrategy, topFirstStrategy]"

subsection \<open>Handlers\<close>

text \<open>
  \<^verbatim>\<open>viewportBoundaryHandler\<close>: each axis is an \<^verbatim>\<open>if ... else if ...\<close> on the incoming
  coordinate; the result is the incoming record with \<open>x\<close> and \<open>y\<close> replaced.
\<close>

definition viewportBoundaryHandler :: PositionHandler where
  "viewportBoundaryHandler result context =
     (let x0 = x result;
          y0 = y result;
          x1 = (if x0 < VIEWPORT_PADDING then VIEWPORT_PADDING
                else if x0 + tooltipWidth context > width (viewport context) - VIEWPORT_PADDING
                then width (viewport context) - tooltipWidth context - VIEWPORT_PADDING
                else x0);
          y1 = (if y0 < VIEWPORT_PADDING then VIEWPORT_PADDING
                else if y0 + tooltipHeight context > height (viewport context) - VIEWPORT_PADDING
                then height (viewport context) - tooltipHeight context - VIEWPORT_PADDING
                else y0)
      in result\<lparr>x := x1, y := y1\<rparr>)"

definition scrollContainerHandler :: PositionHandler where
  "scrollContainerHandler result context = result"

definition safeAreaHandler :: PositionHandler where
  "safeAreaHandler result context =
     (let safeTop = 50;
          safeBottom = 34;
          y0 = y result;
          y1 = (if y0 < safeTop then safeTop
                else if y0 + tooltipHeight context > height (viewport context) - safeBottom
                then height (viewport context) - tooltipHeight context - safeBottom
                else y0)
      in result\<lparr>y := y1\<rparr>)"

definition defaultHandlers :: "PositionHandler list" where
  "defaultHandlers = [viewportBoundaryHandler]"

definition mobileHandlers :: "PositionHandler list" where
  "mobileHandlers = [viewportBoundaryHandler, safeAreaHandler]"

definition fullHandlers :: "PositionHandler list" where
  "fullHandlers = [viewportBoundaryHandler, scrollContainerHandler, safeAreaHandler]"

subsection \<open>Arrow offset\<close>

definition calculateArrowOffset ::
  "PositionOutput \<Rightarrow> BoundingRect \<Rightarrow> real \<Rightarrow> real \<Rightarrow> real" where
  "calculateArrowOffset result rect tipWidth tipHeight =
     (if position result = Top \<or> position result = Bottom
      then (let centerX = left rect + width rect / 2;
                offset = centerX - x result - tipWidth / 2
            in max (- tipWidth / 2 + ARROW_PADDING)
                   (min (tipWidth / 2 - ARROW_PADDING) offset))
      else (let centerY = top' rect + height rect / 2;
                offset = centerY - y result - tipHeight / 2
            in max (- tipHeight / 2 + ARROW_PADDING)
                   (min (tipHeight / 2 - ARROW_PADDING) offset)))"

subsection \<open>The engine\<close>

text \<open>
  The first loop of \<^verbatim>\<open>calculateSmartPosition\<close>:
  \<^verbatim>\<open>for (const strategy of strategies) { result = strategy(input); if (result) break; }\<close>
  starting from \<^verbatim>\<open>result = null\<close>. An object is truthy, so the loop stops at the first
  strategy that returns one, and ends with \<^verbatim>\<open>null\<close> when none does.
\<close>

fun tryStrategies :: "PositionStrategy list \<Rightarrow> PositionInput \<Rightarrow> PositionOutput option" where
  "tryStrategies [] input = None"
| "tryStrategies (strategy # rest) input =
     (case strategy input of
        Some result \<Rightarrow> Some result
      | None \<Rightarrow> tryStrategies rest input)"

text \<open>
  The second loop:
  \<^verbatim>\<open>for (const handler of handlers) { result = handler(result, input); }\<close>
\<close>

fun runHandlers :: "PositionHandler list \<Rightarrow> PositionOutput \<Rightarrow> PositionInput \<Rightarrow> PositionOutput" where
  "runHandlers [] result input = result"
| "runHandlers (handler # rest) result input = runHandlers rest (handler result input) input"

text \<open>The object literal assigned when every strategy has failed (\<^verbatim>\<open>if (!result)\<close>).\<close>

definition fallbackPosition :: "BoundingRect \<Rightarrow> real \<Rightarrow> real \<Rightarrow> PositionOutput" where
  "fallbackPosition rect tipWidth g =
     \<lparr>position = Bottom,
      x = left rect + width rect / 2 - tipWidth / 2,
      y = bottom rect + g\<rparr>"

text \<open>The \<^verbatim>\<open>input\<close> object built from the arguments and the window's size.\<close>

definition positionInput ::
  "'a window_scheme \<Rightarrow> BoundingRect \<Rightarrow> real \<Rightarrow> real \<Rightarrow> real \<Rightarrow> PositionInput" where
  "positionInput win rect tipWidth tipHeight g =
     \<lparr>targetRect = rect, tooltipWidth = tipWidth, tooltipHeight = tipHeight, gap = g,
      viewport = \<lparr>width = innerWidth win, height = innerHeight win\<rparr>\<rparr>"

text \<open>
  \<^verbatim>\<open>calculateSmartPosition(targetRect, tooltipWidth, tooltipHeight, gap = DEFAULT_GAP, options = {})\<close>.
  A parameter with a default takes it when the argument is \<^verbatim>\<open>undefined\<close> (\<open>None\<close>), and
  so do the two destructured fields of \<^verbatim>\<open>options\<close>. The function reads the window and
  writes nothing, so the window is an argument and only the result is returned. There is
  no \<^verbatim>\<open>throw\<close> in the function or in anything it calls, so the result type has no error
  alternative.
\<close>

definition calculateSmartPosition ::
  "'a window_scheme \<Rightarrow> BoundingRect \<Rightarrow> real \<Rightarrow> real \<Rightarrow> real option
     \<Rightarrow> SmartPositionOptions option \<Rightarrow> SmartPositionResult" where
  "calculateSmartPosition win rect tipWidth tipHeight gapArg optionsArg =
     (let g = (case gapArg of None \<Rightarrow> DEFAULT_GAP | Some v \<Rightarrow> v);
          options = (case optionsArg of
                       None \<Rightarrow> \<lparr>strategies = None, handlers = None\<rparr>
                     | Some opts \<Rightarrow> opts);
          strategyList = (case strategies options of
                            None \<Rightarrow> defaultStrategies
                          | Some given \<Rightarrow> given);
          handlerList = (case handlers options of
                           None \<Rightarrow> defaultHandlers
                         | Some given \<Rightarrow> given);
          input = positionInput win rect tipWidth tipHeight g;
          chosen = (case tryStrategies strategyList input of
                      None \<Rightarrow> fallbackPosition rect tipWidth g
                    | Some result \<Rightarrow> result);
          final = runHandlers handlerList chosen input
      in \<lparr>position = position final, x = x final, y = y final,
          arrowOffset = calculateArrowOffset final rect tipWidth tipHeight\<rparr>)"

subsection \<open>The function at run time\<close>

text \<open>
  \<open>calculateSmartPosition\<close> above follows the types of the source: the two lists are
  arrays or absent, a handler gets an object. At run time JavaScript checks none of this,
  and two steps of the function can throw a \<^verbatim>\<open>TypeError\<close>:
  \<^item> \<^verbatim>\<open>for (const ... of v)\<close> when \<open>v\<close> is not iterable. The destructuring default
    replaces \<^verbatim>\<open>undefined\<close> only, so any other value that is not an array (a function, a
    plain object) reaches the loop;
  \<^item> reading a field of \<^verbatim>\<open>null\<close>. The variable \<^verbatim>\<open>result\<close> starts as \<^verbatim>\<open>null\<close> and is
    \<^verbatim>\<open>null\<close> again after a strategy that does not fit; the handlers and
    \<open>calculateArrowOffset\<close> destructure it.
  The function is given a second time with these two steps written out. The value of an
  optional list is one of three kinds, the variable \<^verbatim>\<open>result\<close> is an \<open>option\<close>, and
  the outcome is an error or a result. The window is passed in as the state the function
  runs in and is returned with the outcome, so that what a call leaves behind for the
  next one is part of the model; the function has no assignment to anything but its
  local variables, and the state returned is the one received.
\<close>

datatype jsError = TypeError

datatype 'a jsListArg = Undefined | Array "'a list" | NotIterable

record SmartPositionOptions_js =
  strategies_js :: "PositionStrategy jsListArg"
  handlers_js :: "PositionHandler jsListArg"

text \<open>The two kinds of value that the declared type of an optional list allows.\<close>

fun typedArg :: "'a list option \<Rightarrow> 'a jsListArg" where
  "typedArg None = Undefined"
| "typedArg (Some given) = Array given"

text \<open>
  The second loop with \<^verbatim>\<open>result\<close> possibly \<^verbatim>\<open>null\<close>. A handler that is handed
  \<^verbatim>\<open>null\<close> is taken to throw, as \<open>viewportBoundaryHandler\<close> and \<open>safeAreaHandler\<close> do
  when they destructure it; this is the cautious reading for \<open>scrollContainerHandler\<close>,
  which would pass the \<^verbatim>\<open>null\<close> on to the next dereference.
\<close>

fun runHandlers_js ::
  "PositionHandler list \<Rightarrow> PositionOutput option \<Rightarrow> PositionInput
     \<Rightarrow> jsError + PositionOutput option" where
  "runHandlers_js [] result input = Inr result"
| "runHandlers_js (handler # rest) result input =
     (case result of
        None \<Rightarrow> Inl TypeError
      | Some r \<Rightarrow> runHandlers_js rest (Some (handler r input)) input)"

definition calculateSmartPosition_js ::
  "BoundingRect \<Rightarrow> real \<Rightarrow> real \<Rightarrow> real option \<Rightarrow> SmartPositionOptions_js option
     \<Rightarrow> 'a window_scheme \<Rightarrow> (jsError + SmartPositionResult) \<times> 'a window_scheme" where
  "calculateSmartPosition_js rect tipWidth tipHeight gapArg optionsArg win =
     (let g = (case gapArg of None \<Rightarrow> DEFAULT_GAP | Some v \<Rightarrow> v);
          options = (case optionsArg of
                       None \<Rightarrow> \<lparr>strategies_js = Undefined, handlers_js = Undefined\<rparr>
                     | Some opts \<Rightarrow> opts);
          strategyArg = (case strategies_js options of
                           Undefined \<Rightarrow> Array defaultStrategies
                         | given \<Rightarrow> given);
          handlerArg = (case handlers_js options of
                          Undefined \<Rightarrow> Array defaultHandlers
                        | given \<Rightarrow> given);
          input = positionInput win rect tipWidth tipHeight g;
          outcome =
            (case strategyArg of
               Array strategyList \<Rightarrow>
                 (let found = tryStrategies strategyList input;
                      result = (if found = None
                                then Some \<lparr>position = Bottom,
                                           x = left rect + width rect / 2 - tipWidth / 2,
                                           y = bottom rect + g\<rparr>
                                else found)
                  in case handlerArg of
                       Array handlerList \<Rightarrow>
                         (case runHandlers_js handlerList result input of
                            Inl err \<Rightarrow> Inl err
                          | Inr None \<Rightarrow> Inl TypeError
                          | Inr (Some final) \<Rightarrow>
                              Inr \<lparr>position = position final, x = x final, y = y final,
                                  arrowOffset =
                                    calculateArrowOffset final rect tipWidth tipHeight\<rparr>)
                     | _ \<Rightarrow> Inl TypeError)
             | _ \<Rightarrow> Inl TypeError)
      in (outcome, win))"

subsection \<open>Named presets\<close>

text \<open>
  \<^verbatim>\<open>positionStrategies.presets\<close> and \<^verbatim>\<open>positionHandlers.presets\<close> are object literals with
  three keys each. Reading a property of such an object by name gives the value written
  in the literal for one of its keys; for the name of a member that every object
  inherits from \<^verbatim>\<open>Object.prototype\<close> it gives that member, a function (for \<^verbatim>\<open>__proto__\<close>
  the prototype object), which is not iterable; for any other name it gives
  \<^verbatim>\<open>undefined\<close>. The inherited members are those of the standard prototype.
\<close>

definition objectPrototypeMembers :: "string list" where
  "objectPrototypeMembers =
     [''constructor'', ''hasOwnProperty'', ''isPrototypeOf'', ''propertyIsEnumerable'',
      ''toLocaleString'', ''toString'', ''valueOf'', ''__proto__'',
      ''__defineGetter__'', ''__defineSetter__'', ''__lookupGetter__'', ''__lookupSetter__'']"

definition strategyPresets :: "string \<Rightarrow> PositionStrategy jsListArg" where
  "strategyPresets name =
     (if name = ''default'' then Array defaultStrategies
      else if name = ''topPreferred'' then Array topPreferredStrategies
      else if name = ''horizontal'' then Array horizontalStrategies
      else if name \<in> set objectPrototypeMembers then NotIterable
      else Undefined)"

definition handlerPresets :: "string \<Rightarrow> PositionHandler jsListArg" where
  "handlerPresets name =
     (if name = ''default'' then Array defaultHandlers
      else if name = ''mobile'' then Array mobileHandlers
      else if name = ''full'' then Array fullHandlers
      else if name \<in> set objectPrototypeMembers then NotIterable
      else Undefined)"

subsection \<open>Double-precision arithmetic\<close>





text \<open>
  \<open>viewportBoundaryHandler\<close> with the rounding of each operation written out:
  \<^verbatim>\<open>x + tooltipWidth\<close> and \<^verbatim>\<open>viewport.width - VIEWPORT_PADDING\<close> are one operation each,
  \<^verbatim>\<open>viewport.width - tooltipWidth - VIEWPORT_PADDING\<close> is two, from left to right.
  Comparisons are exact. With \<open>binary64\<close> for \<open>rnd\<close> this is what the source computes;
  with the identity it is \<open>viewportBoundaryHandler\<close>.
\<close>

definition viewportBoundaryHandler_rounded :: "(real \<Rightarrow> real) \<Rightarrow> PositionHandler" where
  "viewportBoundaryHandler_rounded rnd result context =
     (let x0 = x result;
          y0 = y result;
          x1 = (if x0 < VIEWPORT_PADDING then VIEWPORT_PADDING
                else if rnd (x0 + tooltipWidth context)
                        > rnd (width (viewport context) - VIEWPORT_PADDING)
                then rnd (rnd (width (viewport context) - tooltipWidth context)
                          - VIEWPORT_PADDING)
                else x0);
          y1 = (if y0 < VIEWPORT_PADDING then VIEWPORT_PADDING
                else if rnd (y0 + tooltipHeight context)
                        > rnd (height (viewport context) - VIEWPORT_PADDING)
                then rnd (rnd (height (viewport context) - tooltipHeight context)
                          - VIEWPORT_PADDING)
                else y0)
      in result\<lparr>x := x1, y := y1\<rparr>)"

section \<open>Properties\<close>

subsection \<open>Helper facts\<close>

text \<open>The two loops.\<close>

lemma tryStrategies_all_fail:
  "(\<forall>s \<in> set ss. s req = None) \<Longrightarrow> tryStrategies ss req = None"
  by (induction ss) simp_all

lemma tryStrategies_first_success:
  "(\<forall>s \<in> set before. s req = None) \<Longrightarrow> s req = Some cand
   \<Longrightarrow> tryStrategies (before @ s # after) req = Some cand"
  by (induction before) simp_all

text \<open>Each built-in handler returns its argument with \<open>x\<close> or \<open>y\<close> updated.\<close>

lemma viewportBoundaryHandler_position:
  "position (viewportBoundaryHandler res ctx) = position res"
  by (simp add: viewportBoundaryHandler_def Let_def)

lemma scrollContainerHandler_position:
  "position (scrollContainerHandler res ctx) = position res"
  by (simp add: scrollContainerHandler_def)

lemma safeAreaHandler_position:
  "position (safeAreaHandler res ctx) = position res"
  by (simp add: safeAreaHandler_def Let_def)

text \<open>
  \<^verbatim>\<open>Math.max(lo, Math.min(hi, v))\<close> lies between \<open>lo\<close> and \<open>hi\<close> when \<open>lo \<le> hi\<close>, which
  for the arrow is \<open>2 * ARROW_PADDING \<le> size\<close>.
\<close>

lemma calculateArrowOffset_bound_horizontal:
  "position cand = Top \<or> position cand = Bottom \<Longrightarrow> 2 * ARROW_PADDING \<le> tw
   \<Longrightarrow> \<bar>calculateArrowOffset cand rect tw th\<bar> \<le> tw / 2 - ARROW_PADDING"
  by (auto simp add: calculateArrowOffset_def Let_def ARROW_PADDING_def)

lemma calculateArrowOffset_bound_vertical:
  "position cand = Left \<or> position cand = Right \<Longrightarrow> 2 * ARROW_PADDING \<le> th
   \<Longrightarrow> \<bar>calculateArrowOffset cand rect tw th\<bar> \<le> th / 2 - ARROW_PADDING"
  by (auto simp add: calculateArrowOffset_def Let_def ARROW_PADDING_def)

text \<open>
  The scenarios of the specification, evaluated: the target
  \<^verbatim>\<open>{top:10, left:10, bottom:30, right:110, width:100, height:20}\<close>, a tooltip of 200 by
  100, gap 8, no options. In a window of 1000 by 800 the bottom strategy fits; at height
  50 the chain falls through to the right; at 100 by 50 nothing fits.
\<close>

lemma default_call_in_1000x800:
  "calculateSmartPosition \<lparr>innerWidth = 1000, innerHeight = 800, scrollY = s\<rparr>
        \<lparr>width = 100, height = 20, top' = 10, left = 10, bottom = 30, right = 110\<rparr>
        200 100 (Some 8) None
   = \<lparr>position = Bottom, x = 8, y = 38, arrowOffset = - 48\<rparr>"
  by (simp add: calculateSmartPosition_def positionInput_def defaultStrategies_def
      defaultHandlers_def bottomFirstStrategy_def viewportBoundaryHandler_def
      calculateArrowOffset_def ARROW_PADDING_def VIEWPORT_PADDING_def Let_def)

lemma default_call_in_1000x50:
  "calculateSmartPosition \<lparr>innerWidth = 1000, innerHeight = 50, scrollY = 0\<rparr>
        \<lparr>width = 100, height = 20, top' = 10, left = 10, bottom = 30, right = 110\<rparr>
        200 100 (Some 8) None
   = \<lparr>position = Right, x = 118, y = 8, arrowOffset = - 30\<rparr>"
  by (simp add: calculateSmartPosition_def positionInput_def defaultStrategies_def
      defaultHandlers_def bottomFirstStrategy_def topFirstStrategy_def rightFirstStrategy_def
      viewportBoundaryHandler_def
      calculateArrowOffset_def ARROW_PADDING_def VIEWPORT_PADDING_def Let_def)

text \<open>
  The run-time reading agrees with the typed one: with lists of the declared type it
  returns what \<open>calculateSmartPosition\<close> returns, and it throws when one of the two
  values is not iterable.
\<close>

lemma runHandlers_js_Some:
  "runHandlers_js hs (Some r) input = Inr (Some (runHandlers hs r input))"
  by (induction hs arbitrary: r) simp_all

lemma calculateSmartPosition_js_lists:
  "fst (calculateSmartPosition_js rect tw th gapArg
          (Some \<lparr>strategies_js = typedArg ssOpt, handlers_js = typedArg hsOpt\<rparr>) win)
     = Inr (calculateSmartPosition win rect tw th gapArg
              (Some \<lparr>strategies = ssOpt, handlers = hsOpt\<rparr>))"
  by (cases ssOpt; cases hsOpt)
     (simp_all add: calculateSmartPosition_js_def calculateSmartPosition_def Let_def
       runHandlers_js_Some fallbackPosition_def split: option.splits)

lemma calculateSmartPosition_js_no_options:
  "fst (calculateSmartPosition_js rect tw th gapArg None win)
     = Inr (calculateSmartPosition win rect tw th gapArg None)"
  by (simp add: calculateSmartPosition_js_def calculateSmartPosition_def Let_def
       runHandlers_js_Some fallbackPosition_def split: option.splits)

lemma calculateSmartPosition_js_not_iterable:
  "strategies_js opts = NotIterable \<or> handlers_js opts = NotIterable
   \<Longrightarrow> fst (calculateSmartPosition_js rect tw th gapArg (Some opts) win) = Inl TypeError"
  by (auto simp add: calculateSmartPosition_js_def Let_def split: jsListArg.splits)

lemma jsListArg_typed:
  "v \<noteq> NotIterable \<Longrightarrow> \<exists>l. v = typedArg l"
  by (cases v) (auto intro: exI [of _ None] exI [of _ "Some l" for l])

lemma SmartPositionResult_shape:
  fixes res :: SmartPositionResult
  shows "\<exists>side px py off.
      res = \<lparr>position = side, x = px, y = py, arrowOffset = off\<rparr>
      \<and> side \<in> {Top, Bottom, Left, Right}"
proof (cases res)
  case (fields side px py off)
  moreover have "side \<in> {Top, Bottom, Left, Right}"
    by (cases side) simp_all
  ultimately show ?thesis by auto
qed





lemma viewportBoundaryHandler_rounded_exact:
  "viewportBoundaryHandler_rounded (\<lambda>v. v) = viewportBoundaryHandler"
  by (intro ext) (simp add: viewportBoundaryHandler_rounded_def viewportBoundaryHandler_def)

subsection \<open>Total coverage and the fallback\<close>

text \<open>
  \<^bold>\<open>C1\<close>. For every target rectangle, tooltip size, gap and window, and for every
  strategy list and handler list (given, or absent and replaced by the default),
  \<open>calculateSmartPosition\<close> does not throw: it returns a record with all four fields,
  whose side is one of top, bottom, left and right. When every strategy of the list
  returns \<^verbatim>\<open>null\<close> on the request, the variable \<^verbatim>\<open>result\<close> is not left \<^verbatim>\<open>null\<close>: the
  result is the one computed from the hard-coded candidate, side bottom,
  \<open>x = left + width / 2 - tooltipWidth / 2\<close>, \<open>y = bottom + gap\<close>, passed through
  the handlers and the arrow calculation. The statement is about the run-time reading of
  the function, in which a \<^verbatim>\<open>null\<close> that reached a handler would be a \<^verbatim>\<open>TypeError\<close>.
\<close>

theorem calculateSmartPosition_total:
  "(strategies_js opts \<noteq> NotIterable \<and> handlers_js opts \<noteq> NotIterable \<longrightarrow>
      (\<exists>side px py off.
         fst (calculateSmartPosition_js rect tw th gapArg (Some opts) win)
           = Inr \<lparr>position = side, x = px, y = py, arrowOffset = off\<rparr>
         \<and> side \<in> {Top, Bottom, Left, Right}))
   \<and> (\<exists>side px py off.
         fst (calculateSmartPosition_js rect tw th gapArg None win)
           = Inr \<lparr>position = side, x = px, y = py, arrowOffset = off\<rparr>
         \<and> side \<in> {Top, Bottom, Left, Right})
   \<and> ((\<forall>s \<in> set ss. s (positionInput win rect tw th g) = None) \<longrightarrow>
        fst (calculateSmartPosition_js rect tw th (Some g)
               (Some \<lparr>strategies_js = Array ss, handlers_js = Array hs\<rparr>) win)
          = Inr (let final = runHandlers hs
                       \<lparr>position = Bottom, x = left rect + width rect / 2 - tw / 2,
                        y = bottom rect + g\<rparr>
                       (positionInput win rect tw th g)
                 in \<lparr>position = position final, x = x final, y = y final,
                     arrowOffset = calculateArrowOffset final rect tw th\<rparr>))"
proof (intro conjI impI)
  assume typed: "strategies_js opts \<noteq> NotIterable \<and> handlers_js opts \<noteq> NotIterable"
  from typed jsListArg_typed [of "strategies_js opts"]
  obtain ssOpt where ss: "strategies_js opts = typedArg ssOpt"
    by auto
  from typed jsListArg_typed [of "handlers_js opts"]
  obtain hsOpt where hs: "handlers_js opts = typedArg hsOpt"
    by auto
  have "opts = \<lparr>strategies_js = strategies_js opts, handlers_js = handlers_js opts\<rparr>"
    by simp
  then have "opts = \<lparr>strategies_js = typedArg ssOpt, handlers_js = typedArg hsOpt\<rparr>"
    by (simp only: ss hs)
  then have "fst (calculateSmartPosition_js rect tw th gapArg (Some opts) win)
      = Inr (calculateSmartPosition win rect tw th gapArg
               (Some \<lparr>strategies = ssOpt, handlers = hsOpt\<rparr>))"
    by (simp only: calculateSmartPosition_js_lists)
  then show "\<exists>side px py off.
       fst (calculateSmartPosition_js rect tw th gapArg (Some opts) win)
         = Inr \<lparr>position = side, x = px, y = py, arrowOffset = off\<rparr>
       \<and> side \<in> {Top, Bottom, Left, Right}"
    using SmartPositionResult_shape [of "calculateSmartPosition win rect tw th gapArg
               (Some \<lparr>strategies = ssOpt, handlers = hsOpt\<rparr>)"]
    by (simp only: sum.inject)
next
  show "\<exists>side px py off.
       fst (calculateSmartPosition_js rect tw th gapArg None win)
         = Inr \<lparr>position = side, x = px, y = py, arrowOffset = off\<rparr>
       \<and> side \<in> {Top, Bottom, Left, Right}"
    using SmartPositionResult_shape [of "calculateSmartPosition win rect tw th gapArg None"]
    by (simp only: calculateSmartPosition_js_no_options sum.inject)
next
  assume "\<forall>s \<in> set ss. s (positionInput win rect tw th g) = None"
  then have "tryStrategies ss (positionInput win rect tw th g) = None"
    by (rule tryStrategies_all_fail)
  then show "fst (calculateSmartPosition_js rect tw th (Some g)
             (Some \<lparr>strategies_js = Array ss, handlers_js = Array hs\<rparr>) win)
        = Inr (let final = runHandlers hs
                     \<lparr>position = Bottom, x = left rect + width rect / 2 - tw / 2,
                      y = bottom rect + g\<rparr>
                     (positionInput win rect tw th g)
               in \<lparr>position = position final, x = x final, y = y final,
                   arrowOffset = calculateArrowOffset final rect tw th\<rparr>)"
    by (simp add: calculateSmartPosition_js_def runHandlers_js_Some Let_def)
qed

text \<open>
  Scenario C as the witness: in a window of 100 by 50 none of the four default strategies
  fits, and the fallback \<open>(-40, 38)\<close> is moved by the viewport-boundary handler.
\<close>

theorem calculateSmartPosition_total_witness:
  "strategies_js \<lparr>strategies_js = Array defaultStrategies,
                  handlers_js = Array defaultHandlers\<rparr> \<noteq> NotIterable
   \<and> handlers_js \<lparr>strategies_js = Array defaultStrategies,
                  handlers_js = Array defaultHandlers\<rparr> \<noteq> NotIterable
   \<and> bottomFirstStrategy (positionInput \<lparr>innerWidth = 100, innerHeight = 50, scrollY = 0\<rparr>
        \<lparr>width = 100, height = 20, top' = 10, left = 10, bottom = 30, right = 110\<rparr> 200 100 8) = None
   \<and> topFirstStrategy (positionInput \<lparr>innerWidth = 100, innerHeight = 50, scrollY = 0\<rparr>
        \<lparr>width = 100, height = 20, top' = 10, left = 10, bottom = 30, right = 110\<rparr> 200 100 8) = None
   \<and> rightFirstStrategy (positionInput \<lparr>innerWidth = 100, innerHeight = 50, scrollY = 0\<rparr>
        \<lparr>width = 100, height = 20, top' = 10, left = 10, bottom = 30, right = 110\<rparr> 200 100 8) = None
   \<and> leftFirstStrategy (positionInput \<lparr>innerWidth = 100, innerHeight = 50, scrollY = 0\<rparr>
        \<lparr>width = 100, height = 20, top' = 10, left = 10, bottom = 30, right = 110\<rparr> 200 100 8) = None
   \<and> fst (calculateSmartPosition_js \<lparr>width = 100, height = 20, top' = 10, left = 10, bottom = 30, right = 110\<rparr> 200 100 (Some 8)
            (Some \<lparr>strategies_js = Array defaultStrategies,
                   handlers_js = Array defaultHandlers\<rparr>)
            \<lparr>innerWidth = 100, innerHeight = 50, scrollY = 0\<rparr>)
      = Inr \<lparr>position = Bottom, x = 8, y = - 58, arrowOffset = - 48\<rparr>"
proof -
  let ?win = "\<lparr>innerWidth = 100, innerHeight = 50, scrollY = 0\<rparr>"
  let ?rect = "\<lparr>width = 100, height = 20, top' = 10, left = 10, bottom = 30, right = 110\<rparr>"
  let ?opts = "\<lparr>strategies_js = Array defaultStrategies,
                handlers_js = Array defaultHandlers\<rparr>"
  have typed: "strategies_js ?opts \<noteq> NotIterable" "handlers_js ?opts \<noteq> NotIterable"
    by simp_all
  have each: "bottomFirstStrategy (positionInput ?win ?rect 200 100 8) = None"
    "topFirstStrategy (positionInput ?win ?rect 200 100 8) = None"
    "rightFirstStrategy (positionInput ?win ?rect 200 100 8) = None"
    "leftFirstStrategy (positionInput ?win ?rect 200 100 8) = None"
    by (simp_all add: positionInput_def bottomFirstStrategy_def
        topFirstStrategy_def rightFirstStrategy_def leftFirstStrategy_def Let_def)
  then have fail: "\<forall>s \<in> set defaultStrategies. s (positionInput ?win ?rect 200 100 8) = None"
    by (simp add: defaultStrategies_def)
  from calculateSmartPosition_total
         [where opts = ?opts and win = ?win and rect = ?rect and tw = 200 and th = 100
            and ss = defaultStrategies and g = 8 and hs = defaultHandlers] fail
  have "fst (calculateSmartPosition_js ?rect 200 100 (Some 8) (Some ?opts) ?win)
     = Inr (let final = runHandlers defaultHandlers
                 \<lparr>position = Bottom, x = left ?rect + width ?rect / 2 - 200 / 2,
                  y = bottom ?rect + 8\<rparr>
                 (positionInput ?win ?rect 200 100 8)
            in \<lparr>position = position final, x = x final, y = y final,
                arrowOffset = calculateArrowOffset final ?rect 200 100\<rparr>)"
    by blast
  also have "\<dots> = Inr \<lparr>position = Bottom, x = 8, y = - 58, arrowOffset = - 48\<rparr>"
    by (simp add: defaultHandlers_def positionInput_def viewportBoundaryHandler_def
        calculateArrowOffset_def VIEWPORT_PADDING_def ARROW_PADDING_def Let_def)
  finally show ?thesis using each typed by blast
qed

subsection \<open>Scenario A\<close>

text \<open>
  \<^bold>\<open>C2\<close> (scenario A). Target \<^verbatim>\<open>{top:10, left:10, bottom:30, right:110, width:100, height:20}\<close>,
  tooltip 200 by 100, gap 8, window 1000 by 800, default strategies and default
  handlers: the result has side bottom, \<open>x = 8\<close> and \<open>y = 38\<close>. The raw candidate of the
  bottom strategy has \<open>x = -40\<close>, and the viewport-boundary handler moves it to the
  padding.
\<close>

theorem scenario_A:
  "bottomFirstStrategy
     (positionInput \<lparr>innerWidth = 1000, innerHeight = 800, scrollY = 0\<rparr>
        \<lparr>width = 100, height = 20, top' = 10, left = 10, bottom = 30, right = 110\<rparr>
        200 100 8)
     = Some \<lparr>position = Bottom, x = - 40, y = 38\<rparr>
   \<and> (let res = calculateSmartPosition
                  \<lparr>innerWidth = 1000, innerHeight = 800, scrollY = 0\<rparr>
                  \<lparr>width = 100, height = 20, top' = 10, left = 10, bottom = 30, right = 110\<rparr>
                  200 100 (Some 8) None
      in position res = Bottom \<and> x res = 8 \<and> y res = 38)"
  by (simp add: calculateSmartPosition_def positionInput_def defaultStrategies_def
      defaultHandlers_def bottomFirstStrategy_def viewportBoundaryHandler_def
      VIEWPORT_PADDING_def Let_def)

subsection \<open>The viewport-boundary handler\<close>







subsection \<open>The strategy chain\<close>

text \<open>
  \<^bold>\<open>C4\<close>. For every request on which the fit test of the bottom strategy passes
  (\<open>viewport.height - targetRect.bottom \<ge> tooltipHeight + gap\<close>), the default chain
  [bottom, top, right, left] yields the candidate of the bottom strategy, whose side is
  bottom, and so does the whole computation with the default lists.
\<close>

theorem bottom_fits_default_chain:
  "(height (viewport req) - bottom (targetRect req) \<ge> tooltipHeight req + gap req \<longrightarrow>
      tryStrategies defaultStrategies req = bottomFirstStrategy req
      \<and> (\<exists>cand. tryStrategies defaultStrategies req = Some cand \<and> position cand = Bottom))
   \<and> (innerHeight win - bottom rect \<ge> th + g \<longrightarrow>
      position (calculateSmartPosition win rect tw th (Some g) None) = Bottom)"
proof (intro conjI impI)
  assume fit: "height (viewport req) - bottom (targetRect req) \<ge> tooltipHeight req + gap req"
  then obtain cand where cand: "bottomFirstStrategy req = Some cand" "position cand = Bottom"
    by (simp add: bottomFirstStrategy_def Let_def)
  from tryStrategies_first_success [of "[]" req bottomFirstStrategy cand] cand(1)
  have "tryStrategies defaultStrategies req = Some cand"
    by (simp add: defaultStrategies_def)
  with cand show "tryStrategies defaultStrategies req = bottomFirstStrategy req"
    and "\<exists>cand. tryStrategies defaultStrategies req = Some cand \<and> position cand = Bottom"
    by simp_all
next
  assume "innerHeight win - bottom rect \<ge> th + g"
  then show "position (calculateSmartPosition win rect tw th (Some g) None) = Bottom"
    by (simp add: calculateSmartPosition_def positionInput_def defaultStrategies_def
        defaultHandlers_def bottomFirstStrategy_def viewportBoundaryHandler_position Let_def)
qed

text \<open>The witness is scenario A: 770 pixels below the target, 108 needed.\<close>

theorem bottom_fits_default_chain_witness:
  "(800::real) - 30 \<ge> 100 + 8
   \<and> tryStrategies defaultStrategies
        (positionInput \<lparr>innerWidth = 1000, innerHeight = 800, scrollY = 0\<rparr>
           \<lparr>width = 100, height = 20, top' = 10, left = 10, bottom = 30, right = 110\<rparr> 200 100 8)
      = Some \<lparr>position = Bottom, x = - 40, y = 38\<rparr>
   \<and> position (calculateSmartPosition \<lparr>innerWidth = 1000, innerHeight = 800, scrollY = 0\<rparr>
        \<lparr>width = 100, height = 20, top' = 10, left = 10, bottom = 30, right = 110\<rparr> 200 100 (Some 8) None) = Bottom"
proof -
  let ?win = "\<lparr>innerWidth = 1000, innerHeight = 800, scrollY = 0\<rparr>"
  let ?rect = "\<lparr>width = 100, height = 20, top' = 10, left = 10, bottom = 30, right = 110\<rparr>"
  let ?req = "positionInput ?win ?rect 200 100 8"
  have fit: "height (viewport ?req) - bottom (targetRect ?req) \<ge> tooltipHeight ?req + gap ?req"
    and fit': "innerHeight ?win - bottom ?rect \<ge> 100 + 8"
    by (simp_all add: positionInput_def)
  have val: "bottomFirstStrategy ?req = Some \<lparr>position = Bottom, x = - 40, y = 38\<rparr>"
    by (simp add: bottomFirstStrategy_def positionInput_def Let_def)
  from bottom_fits_default_chain
         [where req = ?req and win = ?win and rect = ?rect and th = 100 and g = 8 and tw = 200]
       fit fit' val
  show ?thesis by simp
qed

text \<open>
  \<^bold>\<open>C10\<close>. For every request on which the fit test of the bottom strategy passes, the
  candidate the bottom strategy returns is the hard-coded fallback candidate built from
  the request's target rectangle, tooltip width and gap: the fallback is the bottom
  strategy's placement without the fit test.
\<close>

theorem fallback_is_bottom_placement:
  "height (viewport req) - bottom (targetRect req) \<ge> tooltipHeight req + gap req
   \<Longrightarrow> bottomFirstStrategy req
       = Some (fallbackPosition (targetRect req) (tooltipWidth req) (gap req))"
  by (simp add: bottomFirstStrategy_def fallbackPosition_def Let_def)

theorem fallback_is_bottom_placement_witness:
  "(800::real) - 30 \<ge> 100 + 8
   \<and> bottomFirstStrategy
        (positionInput \<lparr>innerWidth = 1000, innerHeight = 800, scrollY = 0\<rparr>
           \<lparr>width = 100, height = 20, top' = 10, left = 10, bottom = 30, right = 110\<rparr> 200 100 8)
      = Some (fallbackPosition \<lparr>width = 100, height = 20, top' = 10, left = 10, bottom = 30, right = 110\<rparr> 200 8)
   \<and> fallbackPosition \<lparr>width = 100, height = 20, top' = 10, left = 10, bottom = 30, right = 110\<rparr> 200 8 = \<lparr>position = Bottom, x = - 40, y = 38\<rparr>"
proof -
  let ?req = "positionInput \<lparr>innerWidth = 1000, innerHeight = 800, scrollY = 0\<rparr>
                \<lparr>width = 100, height = 20, top' = 10, left = 10, bottom = 30, right = 110\<rparr> 200 100 8"
  have fit: "height (viewport ?req) - bottom (targetRect ?req) \<ge> tooltipHeight ?req + gap ?req"
    by (simp add: positionInput_def)
  have val: "fallbackPosition \<lparr>width = 100, height = 20, top' = 10, left = 10, bottom = 30, right = 110\<rparr> 200 8 = \<lparr>position = Bottom, x = - 40, y = 38\<rparr>"
    by (simp add: fallbackPosition_def)
  from fallback_is_bottom_placement [OF fit] val
  show ?thesis by (simp add: positionInput_def)
qed

subsection \<open>The correction pipeline\<close>

text \<open>
  \<^bold>\<open>C6\<close>. For every candidate, every request and every handler list made of the three
  built-in handlers (viewport-boundary, scroll-container, safe-area), the output of the
  pipeline has the side of its input.
\<close>

theorem pipeline_keeps_side:
  "set hs \<subseteq> {viewportBoundaryHandler, scrollContainerHandler, safeAreaHandler}
   \<Longrightarrow> position (runHandlers hs cand req) = position cand"
proof (induction hs arbitrary: cand)
  case Nil
  show ?case by simp
next
  case (Cons h rest)
  from Cons.prems
  have h: "h = viewportBoundaryHandler \<or> h = scrollContainerHandler \<or> h = safeAreaHandler"
    and rest: "set rest \<subseteq> {viewportBoundaryHandler, scrollContainerHandler, safeAreaHandler}"
    by auto
  from h have "position (h cand req) = position cand"
    using viewportBoundaryHandler_position scrollContainerHandler_position
      safeAreaHandler_position
    by auto
  with Cons.IH [OF rest] show ?case by simp
qed

text \<open>
  The witness runs the full pipeline on a candidate that both clamping handlers move:
  \<open>x\<close> from -300 to 8, \<open>y\<close> from 2 to 8 and then to 50.
\<close>

theorem pipeline_keeps_side_witness:
  "set fullHandlers \<subseteq> {viewportBoundaryHandler, scrollContainerHandler, safeAreaHandler}
   \<and> runHandlers fullHandlers \<lparr>position = Left, x = - 300, y = 2\<rparr>
        (positionInput \<lparr>innerWidth = 1000, innerHeight = 800, scrollY = 0\<rparr>
           \<lparr>width = 100, height = 20, top' = 10, left = 10, bottom = 30, right = 110\<rparr> 200 100 8)
      = \<lparr>position = Left, x = 8, y = 50\<rparr>"
proof -
  let ?req = "positionInput \<lparr>innerWidth = 1000, innerHeight = 800, scrollY = 0\<rparr>
                \<lparr>width = 100, height = 20, top' = 10, left = 10, bottom = 30, right = 110\<rparr> 200 100 8"
  let ?cand = "\<lparr>position = Left, x = - 300, y = 2\<rparr>"
  have sub: "set fullHandlers
      \<subseteq> {viewportBoundaryHandler, scrollContainerHandler, safeAreaHandler}"
    by (simp add: fullHandlers_def)
  have xy: "x (runHandlers fullHandlers ?cand ?req) = 8"
    "y (runHandlers fullHandlers ?cand ?req) = 50"
    by (simp_all add: fullHandlers_def positionInput_def viewportBoundaryHandler_def
        scrollContainerHandler_def safeAreaHandler_def VIEWPORT_PADDING_def Let_def)
  from pipeline_keeps_side [OF sub, of ?cand ?req]
  have "position (runHandlers fullHandlers ?cand ?req) = Left"
    by simp
  with xy have "runHandlers fullHandlers ?cand ?req = \<lparr>position = Left, x = 8, y = 50\<rparr>"
    by (cases "runHandlers fullHandlers ?cand ?req") simp
  with sub show ?thesis by blast
qed

subsection \<open>The arrow offset\<close>

text \<open>
  \<^bold>\<open>C5\<close>, as the specification states it: for every input the absolute value of the
  arrow offset is at most \<open>tooltipWidth / 2 - 20\<close> when the side is top or bottom. This
  fails for a tooltip narrower than 40: the bound is then negative, and the outer
  \<^verbatim>\<open>Math.max\<close> returns \<open>20 - tooltipWidth / 2\<close>. With a tooltip of width 20 under the
  target of scenario A, the side is bottom and the offset is 10, above the bound -10.
\<close>

theorem arrowOffset_bound_counterexample:
  "position (calculateSmartPosition \<lparr>innerWidth = 1000, innerHeight = 800, scrollY = 0\<rparr>
        \<lparr>width = 100, height = 20, top' = 10, left = 10, bottom = 30, right = 110\<rparr> 20 100 (Some 8) None) = Bottom
   \<and> arrowOffset (calculateSmartPosition \<lparr>innerWidth = 1000, innerHeight = 800, scrollY = 0\<rparr>
        \<lparr>width = 100, height = 20, top' = 10, left = 10, bottom = 30, right = 110\<rparr> 20 100 (Some 8) None) = 10
   \<and> \<not> (\<bar>arrowOffset (calculateSmartPosition
            \<lparr>innerWidth = 1000, innerHeight = 800, scrollY = 0\<rparr>
            \<lparr>width = 100, height = 20, top' = 10, left = 10, bottom = 30, right = 110\<rparr> 20 100 (Some 8) None)\<bar> \<le> 20 / 2 - ARROW_PADDING)"
  by (simp add: calculateSmartPosition_def positionInput_def defaultStrategies_def
      defaultHandlers_def bottomFirstStrategy_def viewportBoundaryHandler_def
      calculateArrowOffset_def ARROW_PADDING_def VIEWPORT_PADDING_def Let_def)

text \<open>
  \<^bold>\<open>C5\<close>, amended. For every input, strategy list and handler list: when the side of the
  result is top or bottom and \<open>tooltipWidth \<ge> 2 * arrowPadding\<close>, the absolute value of
  the arrow offset is at most \<open>tooltipWidth / 2 - arrowPadding\<close>; when the side is left
  or right and \<open>tooltipHeight \<ge> 2 * arrowPadding\<close>, it is at most
  \<open>tooltipHeight / 2 - arrowPadding\<close>. The arrow padding is 20.
\<close>

theorem arrowOffset_bound:
  "ARROW_PADDING = 20
   \<and> (position (calculateSmartPosition win rect tw th gapArg optionsArg) \<in> {Top, Bottom}
      \<and> 2 * ARROW_PADDING \<le> tw
    \<longrightarrow> \<bar>arrowOffset (calculateSmartPosition win rect tw th gapArg optionsArg)\<bar>
          \<le> tw / 2 - ARROW_PADDING)
   \<and> (position (calculateSmartPosition win rect tw th gapArg optionsArg) \<in> {Left, Right}
      \<and> 2 * ARROW_PADDING \<le> th
    \<longrightarrow> \<bar>arrowOffset (calculateSmartPosition win rect tw th gapArg optionsArg)\<bar>
          \<le> th / 2 - ARROW_PADDING)"
proof (intro conjI impI)
  show "ARROW_PADDING = 20"
    by (simp add: ARROW_PADDING_def)
next
  assume "position (calculateSmartPosition win rect tw th gapArg optionsArg) \<in> {Top, Bottom}
      \<and> 2 * ARROW_PADDING \<le> tw"
  then show "\<bar>arrowOffset (calculateSmartPosition win rect tw th gapArg optionsArg)\<bar>
          \<le> tw / 2 - ARROW_PADDING"
    by (auto simp add: calculateSmartPosition_def Let_def
        intro: calculateArrowOffset_bound_horizontal)
next
  assume "position (calculateSmartPosition win rect tw th gapArg optionsArg) \<in> {Left, Right}
      \<and> 2 * ARROW_PADDING \<le> th"
  then show "\<bar>arrowOffset (calculateSmartPosition win rect tw th gapArg optionsArg)\<bar>
          \<le> th / 2 - ARROW_PADDING"
    by (auto simp add: calculateSmartPosition_def Let_def
        intro: calculateArrowOffset_bound_vertical)
qed

text \<open>
  The witness takes scenario A for the first part (side bottom, offset -48, bound 80) and
  scenario B for the second (side right, offset -30, bound 30).
\<close>

theorem arrowOffset_bound_witness:
  "position (calculateSmartPosition \<lparr>innerWidth = 1000, innerHeight = 800, scrollY = 0\<rparr>
        \<lparr>width = 100, height = 20, top' = 10, left = 10, bottom = 30, right = 110\<rparr> 200 100 (Some 8) None) \<in> {Top, Bottom}
   \<and> 2 * ARROW_PADDING \<le> 200
   \<and> \<bar>arrowOffset (calculateSmartPosition \<lparr>innerWidth = 1000, innerHeight = 800, scrollY = 0\<rparr>
        \<lparr>width = 100, height = 20, top' = 10, left = 10, bottom = 30, right = 110\<rparr> 200 100 (Some 8) None)\<bar> \<le> 200 / 2 - ARROW_PADDING
   \<and> position (calculateSmartPosition \<lparr>innerWidth = 1000, innerHeight = 50, scrollY = 0\<rparr>
        \<lparr>width = 100, height = 20, top' = 10, left = 10, bottom = 30, right = 110\<rparr> 200 100 (Some 8) None) \<in> {Left, Right}
   \<and> 2 * ARROW_PADDING \<le> 100
   \<and> \<bar>arrowOffset (calculateSmartPosition \<lparr>innerWidth = 1000, innerHeight = 50, scrollY = 0\<rparr>
        \<lparr>width = 100, height = 20, top' = 10, left = 10, bottom = 30, right = 110\<rparr> 200 100 (Some 8) None)\<bar> \<le> 100 / 2 - ARROW_PADDING"
proof -
  let ?rect = "\<lparr>width = 100, height = 20, top' = 10, left = 10, bottom = 30, right = 110\<rparr>"
  let ?A = "calculateSmartPosition \<lparr>innerWidth = 1000, innerHeight = 800, scrollY = 0\<rparr>
              ?rect 200 100 (Some 8) None"
  let ?B = "calculateSmartPosition \<lparr>innerWidth = 1000, innerHeight = 50, scrollY = 0\<rparr>
              ?rect 200 100 (Some 8) None"
  have sideA: "position ?A \<in> {Top, Bottom}" and sideB: "position ?B \<in> {Left, Right}"
    by (simp_all add: default_call_in_1000x800 default_call_in_1000x50)
  have wide: "2 * ARROW_PADDING \<le> 200" and high: "2 * ARROW_PADDING \<le> 100"
    by (simp_all add: ARROW_PADDING_def)
  from arrowOffset_bound [of "\<lparr>innerWidth = 1000, innerHeight = 800, scrollY = 0\<rparr>"
         ?rect 200 100 "Some 8" None] sideA wide
  have A: "\<bar>arrowOffset ?A\<bar> \<le> 200 / 2 - ARROW_PADDING"
    by blast
  from arrowOffset_bound [of "\<lparr>innerWidth = 1000, innerHeight = 50, scrollY = 0\<rparr>"
         ?rect 200 100 "Some 8" None] sideB high
  have B: "\<bar>arrowOffset ?B\<bar> \<le> 100 / 2 - ARROW_PADDING"
    by blast
  from sideA wide A sideB high B show ?thesis by blast
qed

subsection \<open>Options and presets\<close>

text \<open>
  \<^bold>\<open>C8\<close>, as the specification states it: an unrecognised preset name makes the
  computation fail with an error instead of using the default lists. This fails: the
  function takes the lists, not names; the key \<^verbatim>\<open>fancy\<close> is in neither preset object
  and is not an inherited member, so reading it gives \<^verbatim>\<open>undefined\<close>, and the
  destructuring defaults of \<open>calculateSmartPosition\<close> put the default lists in its
  place. On scenario A the call does not throw and returns the placement that the
  default lists give.
\<close>

theorem unknown_preset_counterexample:
  "strategyPresets ''fancy'' = Undefined \<and> handlerPresets ''fancy'' = Undefined
   \<and> fst (calculateSmartPosition_js \<lparr>width = 100, height = 20, top' = 10, left = 10, bottom = 30, right = 110\<rparr> 200 100 (Some 8)
            (Some \<lparr>strategies_js = strategyPresets ''fancy'',
                   handlers_js = handlerPresets ''fancy''\<rparr>)
            \<lparr>innerWidth = 1000, innerHeight = 800, scrollY = 0\<rparr>)
      = Inr \<lparr>position = Bottom, x = 8, y = 38, arrowOffset = - 48\<rparr>
   \<and> fst (calculateSmartPosition_js \<lparr>width = 100, height = 20, top' = 10, left = 10, bottom = 30, right = 110\<rparr> 200 100 (Some 8)
            (Some \<lparr>strategies_js = Array defaultStrategies,
                   handlers_js = Array defaultHandlers\<rparr>)
            \<lparr>innerWidth = 1000, innerHeight = 800, scrollY = 0\<rparr>)
      = Inr \<lparr>position = Bottom, x = 8, y = 38, arrowOffset = - 48\<rparr>"
proof -
  have names: "strategyPresets ''fancy'' = Undefined" "handlerPresets ''fancy'' = Undefined"
    by (simp_all add: strategyPresets_def handlerPresets_def objectPrototypeMembers_def)
  have "fst (calculateSmartPosition_js \<lparr>width = 100, height = 20, top' = 10, left = 10, bottom = 30, right = 110\<rparr> 200 100 (Some 8)
            (Some \<lparr>strategies_js = Undefined, handlers_js = Undefined\<rparr>)
            \<lparr>innerWidth = 1000, innerHeight = 800, scrollY = 0\<rparr>)
      = Inr \<lparr>position = Bottom, x = 8, y = 38, arrowOffset = - 48\<rparr>"
    by (simp add: calculateSmartPosition_js_def positionInput_def defaultStrategies_def
        defaultHandlers_def bottomFirstStrategy_def viewportBoundaryHandler_def
        calculateArrowOffset_def ARROW_PADDING_def VIEWPORT_PADDING_def Let_def)
  moreover have "fst (calculateSmartPosition_js \<lparr>width = 100, height = 20, top' = 10, left = 10, bottom = 30, right = 110\<rparr> 200 100 (Some 8)
            (Some \<lparr>strategies_js = Array defaultStrategies,
                   handlers_js = Array defaultHandlers\<rparr>)
            \<lparr>innerWidth = 1000, innerHeight = 800, scrollY = 0\<rparr>)
      = Inr \<lparr>position = Bottom, x = 8, y = 38, arrowOffset = - 48\<rparr>"
    by (simp add: calculateSmartPosition_js_def positionInput_def defaultStrategies_def
        defaultHandlers_def bottomFirstStrategy_def viewportBoundaryHandler_def
        calculateArrowOffset_def ARROW_PADDING_def VIEWPORT_PADDING_def Let_def)
  ultimately show ?thesis
    by (simp only: names simp_thms)
qed

text \<open>
  \<^bold>\<open>C8\<close>, amended. \<open>calculateSmartPosition\<close> receives the strategy list and the handler
  list themselves. A preset name that is neither a key of its presets object nor the
  name of a member inherited from \<^verbatim>\<open>Object.prototype\<close> reads as \<^verbatim>\<open>undefined\<close>; the
  default list is then used in its place, and with both names of this kind the call
  returns the placement of a call without options, with no error. Only the name of an
  inherited member (\<^verbatim>\<open>toString\<close>, \<^verbatim>\<open>constructor\<close>, ...) reads as a value that is not
  iterable, and then the call throws a \<^verbatim>\<open>TypeError\<close>.
\<close>

theorem unknown_preset:
  "(sname \<notin> {''default'', ''topPreferred'', ''horizontal''} \<union> set objectPrototypeMembers \<longrightarrow>
      strategyPresets sname = Undefined
      \<and> fst (calculateSmartPosition_js rect tw th gapArg
               (Some \<lparr>strategies_js = strategyPresets sname, handlers_js = hv\<rparr>) win)
          = fst (calculateSmartPosition_js rect tw th gapArg
               (Some \<lparr>strategies_js = Array defaultStrategies, handlers_js = hv\<rparr>) win))
   \<and> (hname \<notin> {''default'', ''mobile'', ''full''} \<union> set objectPrototypeMembers \<longrightarrow>
      handlerPresets hname = Undefined
      \<and> fst (calculateSmartPosition_js rect tw th gapArg
               (Some \<lparr>strategies_js = sv, handlers_js = handlerPresets hname\<rparr>) win)
          = fst (calculateSmartPosition_js rect tw th gapArg
               (Some \<lparr>strategies_js = sv, handlers_js = Array defaultHandlers\<rparr>) win))
   \<and> (sname \<notin> {''default'', ''topPreferred'', ''horizontal''} \<union> set objectPrototypeMembers
      \<and> hname \<notin> {''default'', ''mobile'', ''full''} \<union> set objectPrototypeMembers \<longrightarrow>
      fst (calculateSmartPosition_js rect tw th gapArg
             (Some \<lparr>strategies_js = strategyPresets sname,
                    handlers_js = handlerPresets hname\<rparr>) win)
        = Inr (calculateSmartPosition win rect tw th gapArg None))
   \<and> (sname \<in> set objectPrototypeMembers \<or> hname \<in> set objectPrototypeMembers \<longrightarrow>
      fst (calculateSmartPosition_js rect tw th gapArg
             (Some \<lparr>strategies_js = strategyPresets sname,
                    handlers_js = handlerPresets hname\<rparr>) win)
        = Inl TypeError)"
proof (intro conjI impI)
  assume "sname \<notin> {''default'', ''topPreferred'', ''horizontal''} \<union> set objectPrototypeMembers"
  then show und: "strategyPresets sname = Undefined"
    by (simp add: strategyPresets_def)
  then show "fst (calculateSmartPosition_js rect tw th gapArg
               (Some \<lparr>strategies_js = strategyPresets sname, handlers_js = hv\<rparr>) win)
          = fst (calculateSmartPosition_js rect tw th gapArg
               (Some \<lparr>strategies_js = Array defaultStrategies, handlers_js = hv\<rparr>) win)"
    by (simp add: calculateSmartPosition_js_def Let_def)
next
  assume "hname \<notin> {''default'', ''mobile'', ''full''} \<union> set objectPrototypeMembers"
  then show und: "handlerPresets hname = Undefined"
    by (simp add: handlerPresets_def)
  then show "fst (calculateSmartPosition_js rect tw th gapArg
               (Some \<lparr>strategies_js = sv, handlers_js = handlerPresets hname\<rparr>) win)
          = fst (calculateSmartPosition_js rect tw th gapArg
               (Some \<lparr>strategies_js = sv, handlers_js = Array defaultHandlers\<rparr>) win)"
    by (cases sv) (simp_all add: calculateSmartPosition_js_def Let_def)
next
  assume "sname \<notin> {''default'', ''topPreferred'', ''horizontal''} \<union> set objectPrototypeMembers
      \<and> hname \<notin> {''default'', ''mobile'', ''full''} \<union> set objectPrototypeMembers"
  then have "strategyPresets sname = typedArg None" "handlerPresets hname = typedArg None"
    by (simp_all add: strategyPresets_def handlerPresets_def)
  then have "fst (calculateSmartPosition_js rect tw th gapArg
             (Some \<lparr>strategies_js = strategyPresets sname,
                    handlers_js = handlerPresets hname\<rparr>) win)
     = Inr (calculateSmartPosition win rect tw th gapArg
              (Some \<lparr>strategies = None, handlers = None\<rparr>))"
    by (simp only: calculateSmartPosition_js_lists)
  then show "fst (calculateSmartPosition_js rect tw th gapArg
             (Some \<lparr>strategies_js = strategyPresets sname,
                    handlers_js = handlerPresets hname\<rparr>) win)
        = Inr (calculateSmartPosition win rect tw th gapArg None)"
    by (simp add: calculateSmartPosition_def)
next
  assume "sname \<in> set objectPrototypeMembers \<or> hname \<in> set objectPrototypeMembers"
  then have "strategyPresets sname = NotIterable \<or> handlerPresets hname = NotIterable"
    by (auto simp add: strategyPresets_def handlerPresets_def objectPrototypeMembers_def)
  then show "fst (calculateSmartPosition_js rect tw th gapArg
             (Some \<lparr>strategies_js = strategyPresets sname,
                    handlers_js = handlerPresets hname\<rparr>) win)
        = Inl TypeError"
    by (intro calculateSmartPosition_js_not_iterable) simp
qed

text \<open>
  The witness: the names \<^verbatim>\<open>fancy\<close> and \<^verbatim>\<open>compact\<close> on scenario A give the placement of
  the default lists; the name \<^verbatim>\<open>toString\<close> for the strategies, with the handler preset
  \<^verbatim>\<open>mobile\<close>, throws.
\<close>

theorem unknown_preset_witness:
  "''fancy'' \<notin> {''default'', ''topPreferred'', ''horizontal''} \<union> set objectPrototypeMembers
   \<and> ''compact'' \<notin> {''default'', ''mobile'', ''full''} \<union> set objectPrototypeMembers
   \<and> fst (calculateSmartPosition_js \<lparr>width = 100, height = 20, top' = 10, left = 10, bottom = 30, right = 110\<rparr> 200 100 (Some 8)
            (Some \<lparr>strategies_js = strategyPresets ''fancy'',
                   handlers_js = handlerPresets ''compact''\<rparr>)
            \<lparr>innerWidth = 1000, innerHeight = 800, scrollY = 0\<rparr>)
      = Inr \<lparr>position = Bottom, x = 8, y = 38, arrowOffset = - 48\<rparr>
   \<and> ''toString'' \<in> set objectPrototypeMembers
   \<and> fst (calculateSmartPosition_js \<lparr>width = 100, height = 20, top' = 10, left = 10, bottom = 30, right = 110\<rparr> 200 100 (Some 8)
            (Some \<lparr>strategies_js = strategyPresets ''toString'',
                   handlers_js = handlerPresets ''mobile''\<rparr>)
            \<lparr>innerWidth = 1000, innerHeight = 800, scrollY = 0\<rparr>)
      = Inl TypeError"
proof -
  let ?win = "\<lparr>innerWidth = 1000, innerHeight = 800, scrollY = 0\<rparr>"
  have s: "''fancy'' \<notin> {''default'', ''topPreferred'', ''horizontal''}
             \<union> set objectPrototypeMembers"
    and h: "''compact'' \<notin> {''default'', ''mobile'', ''full''} \<union> set objectPrototypeMembers"
    and i: "''toString'' \<in> set objectPrototypeMembers"
    by (simp_all add: objectPrototypeMembers_def)
  have "fst (calculateSmartPosition_js \<lparr>width = 100, height = 20, top' = 10, left = 10, bottom = 30, right = 110\<rparr> 200 100 (Some 8)
            (Some \<lparr>strategies_js = strategyPresets ''fancy'',
                   handlers_js = handlerPresets ''compact''\<rparr>) ?win)
      = Inr (calculateSmartPosition ?win \<lparr>width = 100, height = 20, top' = 10, left = 10, bottom = 30, right = 110\<rparr> 200 100 (Some 8) None)"
    by (rule unknown_preset [THEN conjunct2, THEN conjunct2, THEN conjunct1, THEN mp,
          OF conjI [OF s h]])
  then have silent: "fst (calculateSmartPosition_js \<lparr>width = 100, height = 20, top' = 10, left = 10, bottom = 30, right = 110\<rparr> 200 100 (Some 8)
            (Some \<lparr>strategies_js = strategyPresets ''fancy'',
                   handlers_js = handlerPresets ''compact''\<rparr>) ?win)
      = Inr \<lparr>position = Bottom, x = 8, y = 38, arrowOffset = - 48\<rparr>"
    by (simp only: default_call_in_1000x800)
  have loud: "fst (calculateSmartPosition_js \<lparr>width = 100, height = 20, top' = 10, left = 10, bottom = 30, right = 110\<rparr> 200 100 (Some 8)
            (Some \<lparr>strategies_js = strategyPresets ''toString'',
                   handlers_js = handlerPresets ''mobile''\<rparr>) ?win)
      = Inl TypeError"
    by (rule unknown_preset [THEN conjunct2, THEN conjunct2, THEN conjunct2, THEN mp,
          OF disjI1 [OF i]])
  show ?thesis
    by (intro conjI) (rule s h silent i loud)+
qed

subsection \<open>Repeated calls\<close>



end
